theory Spec2Isabelle
  imports Main
begin

section \<open>Python values, strings and dictionaries\<close>

text \<open>
  The values a configuration bundle holds: what the argument parser and the defaults
  produce. \<open>truthy\<close> is Python's truth test on them.
\<close>

datatype pyval = PyNone | PyBool bool | PyInt int | PyStr string | PyList "pyval list"

fun truthy :: "pyval \<Rightarrow> bool" where
  "truthy PyNone = False"
| "truthy (PyBool b) = b"
| "truthy (PyInt i) = (i \<noteq> 0)"
| "truthy (PyStr s) = (s \<noteq> [])"
| "truthy (PyList xs) = (xs \<noteq> [])"

text \<open>Python's \<^verbatim>\<open>a or b\<close>: the first operand when it is truthy, the second otherwise.\<close>

definition py_or :: "pyval \<Rightarrow> pyval \<Rightarrow> pyval" where
  "py_or a b = (if truthy a then a else b)"

text \<open>\<^verbatim>\<open>str(n)\<close> for an integer.\<close>

fun str_nat :: "nat \<Rightarrow> string" where
  "str_nat n =
     (if n < 10 then [''0123456789'' ! n]
      else str_nat (n div 10) @ [''0123456789'' ! (n mod 10)])"

declare str_nat.simps [simp del]

definition str_int :: "int \<Rightarrow> string" where
  "str_int i = (if i < 0 then ''-'' @ str_nat (nat (- i)) else str_nat (nat i))"

text \<open>\<^verbatim>\<open>s.endswith(suffix)\<close>, \<^verbatim>\<open>s.startswith(prefix)\<close>, \<^verbatim>\<open>s[:-3]\<close> and \<^verbatim>\<open>sep.join(xs)\<close>.\<close>

definition endswith :: "string \<Rightarrow> string \<Rightarrow> bool" where
  "endswith s suffix =
     (length suffix \<le> length s \<and> drop (length s - length suffix) s = suffix)"

definition startswith :: "string \<Rightarrow> string \<Rightarrow> bool" where
  "startswith s prefix = (take (length prefix) s = prefix)"

definition strip3 :: "string \<Rightarrow> string" where
  "strip3 s = take (length s - 3) s"

fun join :: "string \<Rightarrow> string list \<Rightarrow> string" where
  "join sep [] = []"
| "join sep [x] = x"
| "join sep (x # y # ys) = x @ sep @ join sep (y # ys)"

text \<open>\<^verbatim>\<open>os.path.join(a, b)\<close> on a POSIX host.\<close>

definition os_path_join :: "string \<Rightarrow> string \<Rightarrow> string" where
  "os_path_join a b =
     (if startswith b ''/'' then b
      else if a = [] \<or> endswith a ''/'' then a @ b
      else a @ ''/'' @ b)"

text \<open>
  A dictionary with string keys, in insertion order. \<open>dict_get\<close> is \<^verbatim>\<open>d.get(k)\<close>,
  \<open>dict_get_default\<close> is \<^verbatim>\<open>d.get(k, default)\<close>, \<open>dict_set\<close> is \<^verbatim>\<open>d[k] = v\<close>.
\<close>

type_synonym config = "(string \<times> pyval) list"

definition dict_get :: "config \<Rightarrow> string \<Rightarrow> pyval" where
  "dict_get d k = (case map_of d k of None \<Rightarrow> PyNone | Some v \<Rightarrow> v)"

definition dict_get_default :: "config \<Rightarrow> string \<Rightarrow> pyval \<Rightarrow> pyval" where
  "dict_get_default d k dflt = (case map_of d k of None \<Rightarrow> dflt | Some v \<Rightarrow> v)"

fun dict_set :: "config \<Rightarrow> string \<Rightarrow> pyval \<Rightarrow> config" where
  "dict_set [] k v = [(k, v)]"
| "dict_set ((k', v') # d) k v =
     (if k' = k then (k, v) # d else (k', v') # dict_set d k v)"

section \<open>Exceptions, the observable trace and the process state\<close>

text \<open>
  \<open>SystemExit\<close> and \<open>KeyboardInterrupt\<close> are not subclasses of Python's
  \<open>Exception\<close>; \<open>EOFError\<close> is one, with a handler of its own in the script.
  \<open>Exception msg\<close> stands for every other subclass, \<open>msg\<close> being \<^verbatim>\<open>str(err)\<close>.
\<close>

datatype exn = SystemExit int | KeyboardInterrupt | EOFError | Exception string

definition KeyError :: "string \<Rightarrow> exn" where
  "KeyError k = Exception ([CHR 0x27] @ k @ [CHR 0x27])"

datatype 'a result = Return 'a | Raise exn

text \<open>
  Everything the program does to the outside, in order: console output, log records
  (\<open>Log level message\<close>; \<^verbatim>\<open>log.critical\<close> is level 50, \<^verbatim>\<open>log.debug\<close> level 10) and the
  calls into the collaborators that are not part of this file.
\<close>

datatype event =
    Print string
  | Log nat string
  | Config_args config
  | Set_formatter_colour pyval
  | Invalidate_caches
  | Import_module string
  | Module_info pyval
  | Cmdloop config
  | Scan_website config

text \<open>
  The process state: the trace and the two registries (\<^verbatim>\<open>core.plugin.loaded_plugins\<close>,
  a dictionary from category to a list of plugins, and
  \<^verbatim>\<open>core.data_type.loaded_data_types\<close>, a dictionary from name to data type).
\<close>

record ('p, 'd) world =
  trace :: "event list"
  loaded_plugins :: "(string \<times> 'p list) list"
  loaded_data_types :: "(string \<times> 'd) list"

type_synonym ('a, 'p, 'd) py = "('p, 'd) world \<Rightarrow> 'a result \<times> ('p, 'd) world"

definition emit :: "event \<Rightarrow> ('p, 'd) world \<Rightarrow> ('p, 'd) world" where
  "emit e w = w\<lparr>trace := trace w @ [e]\<rparr>"

definition bind :: "('a, 'p, 'd) py \<Rightarrow> ('a \<Rightarrow> ('b, 'p, 'd) py) \<Rightarrow> ('b, 'p, 'd) py" where
  "bind m f w = (case m w of (Return a, w') \<Rightarrow> f a w' | (Raise e, w') \<Rightarrow> (Raise e, w'))"

definition py_print :: "string \<Rightarrow> (unit, 'p, 'd) py" where
  "py_print s w = (Return (), emit (Print s) w)"

definition log_log :: "nat \<Rightarrow> string \<Rightarrow> (unit, 'p, 'd) py" where
  "log_log level msg w = (Return (), emit (Log level msg) w)"

definition log_critical :: "string \<Rightarrow> (unit, 'p, 'd) py" where
  "log_critical msg = log_log 50 msg"

definition log_debug :: "string \<Rightarrow> (unit, 'p, 'd) py" where
  "log_debug msg = log_log 10 msg"

text \<open>The status the operating system sees when the script ends with this result.\<close>

fun exit_status :: "unit result \<Rightarrow> int" where
  "exit_status (Return u) = 0"
| "exit_status (Raise (SystemExit n)) = n"
| "exit_status (Raise e) = 1"

section \<open>The host: file system and collaborators\<close>

text \<open>
  A directory tree. An entry of \<^verbatim>\<open>os.scandir\<close> is a name with the node it names;
  \<open>is_dir\<close> is \<^verbatim>\<open>entry.is_dir()\<close>.
\<close>

datatype node = File | Dir "(string \<times> node) list"

type_synonym dir_entry = "string \<times> node"

fun is_dir :: "dir_entry \<Rightarrow> bool" where
  "is_dir (name, Dir entries) = True"
| "is_dir (name, File) = False"

text \<open>
  What the script takes from its surroundings: the interpreter's version, the
  directory \<^verbatim>\<open>sys.path[0]\<close> and its contents, and the functions it imports from
  \<^verbatim>\<open>utils\<close> and \<^verbatim>\<open>core\<close>. Importing a module may register plugins or data types,
  and may raise; the other collaborators return or raise.
\<close>

record ('p, 'd) env =
  sys_version_info :: "int \<times> int"
  sys_path0 :: string
  install_dir :: "dir_entry list"
  cliparser_options :: config
  cliparser_banner :: string
  config_args :: "config \<Rightarrow> config"
  version :: pyval
  no_colour :: "string \<Rightarrow> string"
  import_module ::
    "string \<Rightarrow> (string \<times> 'p list) list \<times> (string \<times> 'd) list
       \<Rightarrow> unit result \<times> (string \<times> 'p list) list \<times> (string \<times> 'd) list"
  module_info :: "pyval \<Rightarrow> unit result"
  cmdloop :: "config \<Rightarrow> unit result"
  scan_website :: "config \<Rightarrow> unit result"
  format_exc :: "exn \<Rightarrow> string"

text \<open>\<^verbatim>\<open>os.scandir(path)\<close>, where \<open>n\<close> is the node at \<open>path\<close>.\<close>

definition os_scandir :: "string \<Rightarrow> node \<Rightarrow> (dir_entry list, 'p, 'd) py" where
  "os_scandir path n w =
     (case n of
        Dir entries \<Rightarrow> (Return entries, w)
      | File \<Rightarrow>
          (Raise (Exception (''[Errno 20] Not a directory: '' @ [CHR 0x27] @ path @ [CHR 0x27])), w))"

definition invalidate_caches :: "(unit, 'p, 'd) py" where
  "invalidate_caches w = (Return (), emit Invalidate_caches w)"

definition importlib_import_module :: "('p, 'd) env \<Rightarrow> string \<Rightarrow> (unit, 'p, 'd) py" where
  "importlib_import_module env import_path w =
     (case import_module env import_path (loaded_plugins w, loaded_data_types w) of
        (r, plugins, data_types) \<Rightarrow>
          (r, (emit (Import_module import_path) w)
                \<lparr>loaded_plugins := plugins, loaded_data_types := data_types\<rparr>))"

definition dict_subscript :: "config \<Rightarrow> string \<Rightarrow> (pyval, 'p, 'd) py" where
  "dict_subscript d k w =
     (case map_of d k of None \<Rightarrow> (Raise (KeyError k), w) | Some v \<Rightarrow> (Return v, w))"

section \<open>sstimap.py\<close>

subsection \<open>check_python_version\<close>

definition check_python_version :: "('p, 'd) env \<Rightarrow> (unit, 'p, 'd) py" where
  "check_python_version env w =
     (let major_version = fst (sys_version_info env);
          minor_version = snd (sys_version_info env);
          version_string = str_int major_version @ ''.'' @ str_int minor_version
      in if major_version \<noteq> 3 then
           (Raise (SystemExit 1),
            emit (Print ([CHR 0x1B] @ ''[91m[!]'' @ [CHR 0x1B]
              @ ''[0m SSTImap requires Python 3.6 or above. Detected version: ''
              @ version_string)) w)
         else if minor_version < 6 then
           (Raise (SystemExit 1),
            emit (Print ([CHR 0x1B] @ ''[91m[!]'' @ [CHR 0x1B] @ ''[0m Python ''
              @ version_string
              @ '' is not supported. Please upgrade to Python 3.6 or higher.'')) w)
         else if minor_version > 13 then
           (Return (),
            emit (Print ([CHR 0x1B] @ ''[33m[!]'' @ [CHR 0x1B]
              @ ''[0m SSTImap was not tested with Python '' @ version_string
              @ ''. Proceeding with caution...'')) w)
         else (Return (), w))"

subsection \<open>display_welcome_banner\<close>

definition display_welcome_banner :: "('p, 'd) env \<Rightarrow> pyval \<Rightarrow> (unit, 'p, 'd) py" where
  "display_welcome_banner env colour_mode w =
     (let w1 = emit (Set_formatter_colour colour_mode) w;
          banner_text = cliparser_banner env
      in if truthy colour_mode then py_print banner_text w1
         else py_print (no_colour env banner_text) w1)"

subsection \<open>scan_plugin_folder and import_plugins\<close>

definition scan_plugin_folder :: "('p, 'd) env \<Rightarrow> (dir_entry list, 'p, 'd) py" where
  "scan_plugin_folder env w =
     (let plugin_directory = sys_path0 env @ ''/plugins''
      in case map_of (install_dir env) ''plugins'' of
           None \<Rightarrow>
             (Return [],
              emit (Print (''[!] Plugin directory not found: '' @ plugin_directory)) w)
         | Some n \<Rightarrow>
             (case os_scandir plugin_directory n w of
                (Raise e, w') \<Rightarrow> (Raise e, w')
              | (Return group_list, w') \<Rightarrow> (Return (filter is_dir group_list), w')))"

text \<open>The inner loop of \<^verbatim>\<open>import_plugins\<close>, over the entries of one group.\<close>

fun import_group_entries ::
  "('p, 'd) env \<Rightarrow> string \<Rightarrow> dir_entry list \<Rightarrow> (unit, 'p, 'd) py" where
  "import_group_entries env group_name [] w = (Return (), w)"
| "import_group_entries env group_name (entry # rest) w =
     (let module_name = fst entry
      in if endswith module_name ''.py'' \<and> \<not> startswith module_name ''_'' then
           (case importlib_import_module env
                   (''plugins.'' @ group_name @ ''.'' @ strip3 module_name) w of
              (Raise e, w') \<Rightarrow> (Raise e, w')
            | (Return u, w') \<Rightarrow> import_group_entries env group_name rest w')
         else import_group_entries env group_name rest w)"

text \<open>
  The outer loop, over the groups. The node of a group is the directory at
  \<open>group_path\<close>.
\<close>

fun import_groups :: "('p, 'd) env \<Rightarrow> dir_entry list \<Rightarrow> (unit, 'p, 'd) py" where
  "import_groups env [] w = (Return (), w)"
| "import_groups env (group_entry # rest) w =
     (let group_name = fst group_entry;
          group_path = os_path_join (os_path_join (sys_path0 env) ''plugins'') group_name
      in case os_scandir group_path (snd group_entry) w of
           (Raise e, w') \<Rightarrow> (Raise e, w')
         | (Return module_entries, w') \<Rightarrow>
             (case import_group_entries env group_name module_entries w' of
                (Raise e, w'') \<Rightarrow> (Raise e, w'')
              | (Return u, w'') \<Rightarrow> import_groups env rest w''))"

definition import_plugins :: "('p, 'd) env \<Rightarrow> (unit, 'p, 'd) py" where
  "import_plugins env =
     bind invalidate_caches (\<lambda>u.
     bind (scan_plugin_folder env) (\<lambda>plugin_groups.
     import_groups env plugin_groups))"

subsection \<open>import_data_types\<close>

fun import_files :: "('p, 'd) env \<Rightarrow> dir_entry list \<Rightarrow> (unit, 'p, 'd) py" where
  "import_files env [] w = (Return (), w)"
| "import_files env (file_entry # rest) w =
     (let file_name = fst file_entry
      in if endswith file_name ''.py'' \<and> \<not> startswith file_name ''_'' then
           (let module_name = strip3 file_name;
                full_module_path = ''data_types.'' @ module_name
            in case importlib_import_module env full_module_path w of
                 (Raise e, w') \<Rightarrow> (Raise e, w')
               | (Return u, w') \<Rightarrow> import_files env rest w')
         else import_files env rest w)"

definition import_data_types :: "('p, 'd) env \<Rightarrow> (unit, 'p, 'd) py" where
  "import_data_types env =
     bind invalidate_caches (\<lambda>u w.
       let data_types_path = os_path_join (sys_path0 env) ''data_types''
       in case map_of (install_dir env) ''data_types'' of
            None \<Rightarrow> (Return (), emit (Print ''[!] data_types directory missing!'') w)
          | Some n \<Rightarrow>
              bind (os_scandir data_types_path n) (\<lambda>files. import_files env files) w)"

subsection \<open>print_plugin_summary and print_data_type_summary\<close>

text \<open>The loop that fills \<open>plugin_summary\<close>, started with the empty list.\<close>

fun summary_loop :: "(string \<times> 'p list) list \<Rightarrow> string list \<Rightarrow> string list" where
  "summary_loop [] plugin_summary = plugin_summary"
| "summary_loop ((category, plugin_list) # rest) plugin_summary =
     (let count = length plugin_list
      in summary_loop rest (plugin_summary @ [category @ '': '' @ str_nat count]))"

definition print_plugin_summary :: "(unit, 'p, 'd) py" where
  "print_plugin_summary w =
     (let plugin_summary = summary_loop (loaded_plugins w) [];
          summary_str = join ''; '' plugin_summary
      in log_log 26 (''Loaded plugins by categories: '' @ summary_str) w)"

definition print_data_type_summary :: "(unit, 'p, 'd) py" where
  "print_data_type_summary w =
     (let count = length (loaded_data_types w)
      in log_log 26 (''Loaded request body types: '' @ str_nat count @ [CHR 0x0A]) w)"

subsection \<open>The four execution modes\<close>

definition usage_hint :: string where
  "usage_hint =
     ''SSTImap requires at least one of the following options:'' @ [CHR 0x0A]
     @ ''  - Target URL (-u, --url)'' @ [CHR 0x0A]
     @ ''  - Load URLs from file (--load-urls)'' @ [CHR 0x0A]
     @ ''  - Load forms from file (--load-forms)'' @ [CHR 0x0A]
     @ ''  - Interactive mode (-i, --interactive)'' @ [CHR 0x0A]
     @ ''  - Specific module (--module)'' @ [CHR 0x0A]
     @ ''Use --help for more details.''"

definition show_usage_hint :: "(unit, 'p, 'd) py" where
  "show_usage_hint = log_log 22 usage_hint"

definition checks_module_info :: "('p, 'd) env \<Rightarrow> pyval \<Rightarrow> (unit, 'p, 'd) py" where
  "checks_module_info env selector w = (module_info env selector, emit (Module_info selector) w)"

definition handle_module_option :: "('p, 'd) env \<Rightarrow> pyval \<Rightarrow> (unit, 'p, 'd) py" where
  "handle_module_option env module_option =
     (if module_option = PyStr ''list'' then checks_module_info env (PyStr '''')
      else checks_module_info env module_option)"

definition start_interactive_shell :: "('p, 'd) env \<Rightarrow> config \<Rightarrow> (unit, 'p, 'd) py" where
  "start_interactive_shell env configured_args =
     bind (log_log 23 (''Starting SSTImap in interactive mode. Type '' @ [CHR 0x27]
             @ ''help'' @ [CHR 0x27] @ '' for available commands.'')) (\<lambda>u w.
       (cmdloop env configured_args, emit (Cmdloop configured_args) w))"

definition launch_scan :: "('p, 'd) env \<Rightarrow> config \<Rightarrow> (unit, 'p, 'd) py" where
  "launch_scan env configured_args =
     bind (log_log 23 ''Starting SSTI scan using predefined configuration...'') (\<lambda>u w.
       (scan_website env configured_args, emit (Scan_website configured_args) w))"

subsection \<open>main\<close>

text \<open>Step 6 of \<^verbatim>\<open>main\<close>, the route logic.\<close>

definition route :: "('p, 'd) env \<Rightarrow> config \<Rightarrow> (unit, 'p, 'd) py" where
  "route env configured_args =
     (let no_input_provided = (\<not> truthy
            (py_or (py_or (py_or (py_or
               (dict_get configured_args ''url'')
               (dict_get configured_args ''interactive''))
               (dict_get configured_args ''load_urls''))
               (dict_get configured_args ''load_forms''))
               (dict_get configured_args ''module'')))
      in if no_input_provided then show_usage_hint
         else if truthy (dict_get configured_args ''module'') then
           bind (dict_subscript configured_args ''module'') (\<lambda>selected_module.
             handle_module_option env selected_module)
         else if truthy (dict_get configured_args ''interactive'') then
           start_interactive_shell env configured_args
         else launch_scan env configured_args)"

text \<open>Steps 1 to 5, then the route logic.\<close>

definition main :: "('p, 'd) env \<Rightarrow> (unit, 'p, 'd) py" where
  "main env =
     (let cli_args = cliparser_options env;
          args_dict = cli_args
      in bind (\<lambda>w. (Return (config_args env args_dict), emit (Config_args args_dict) w))
           (\<lambda>configured_args0.
         let configured_args = dict_set configured_args0 ''version'' (version env);
             colour_enabled = dict_get_default configured_args ''colour'' (PyBool True)
         in bind (display_welcome_banner env colour_enabled) (\<lambda>u.
            bind (import_plugins env) (\<lambda>u.
            bind print_plugin_summary (\<lambda>u.
            bind (import_data_types env) (\<lambda>u.
            bind print_data_type_summary (\<lambda>u.
            route env configured_args)))))))"

subsection \<open>The script body\<close>

text \<open>
  The \<^verbatim>\<open>if __name__ == '__main__'\<close> block: the body of its \<^verbatim>\<open>try\<close>, then the
  handlers around it.
\<close>

definition try_block :: "('p, 'd) env \<Rightarrow> (unit, 'p, 'd) py" where
  "try_block env = bind (check_python_version env) (\<lambda>u. main env)"

definition script :: "('p, 'd) env \<Rightarrow> (unit, 'p, 'd) py" where
  "script env w =
     (case try_block env w of
        (Return u, w') \<Rightarrow> (Return u, w')
      | (Raise KeyboardInterrupt, w') \<Rightarrow>
          bind (py_print []) (\<lambda>u.
            log_log 22 ''User interruption. Exiting SSTImap...'') w'
      | (Raise EOFError, w') \<Rightarrow>
          bind (py_print []) (\<lambda>u.
            log_log 22 ''Received EOF. Exiting SSTImap...'') w'
      | (Raise (Exception msg), w') \<Rightarrow>
          bind (log_critical ''An unexpected error occurred!'') (\<lambda>u.
          bind (log_critical (''Error: '' @ msg)) (\<lambda>u.
          bind (log_debug (format_exc env (Exception msg))) (\<lambda>u w''.
            (Raise (Exception msg), w'')))) w'
      | (Raise (SystemExit n), w') \<Rightarrow> (Raise (SystemExit n), w'))"

section \<open>A sample host\<close>

text \<open>
  A host on which the definitions can be run: Python 3.12, one plugin group with one
  loadable unit, one loadable data type, and collaborators that return.
\<close>

definition demo_host :: "(nat, nat) env" where
  "demo_host = \<lparr>
     sys_version_info = (3, 12),
     sys_path0 = ''/opt/sstimap'',
     install_dir =
       [(''plugins'', Dir [(''engines'', Dir [(''jinja2.py'', File), (''_base.py'', File),
                                               (''notes.txt'', File)]),
                           (''README.md'', File)]),
        (''data_types'', Dir [(''json.py'', File), (''__init__.py'', File)])],
     cliparser_options = [(''url'', PyStr ''http://x''), (''interactive'', PyBool False)],
     cliparser_banner = ''SSTImap'',
     config_args = (\<lambda>d. d),
     version = PyStr ''1.2'',
     no_colour = (\<lambda>s. s),
     import_module = (\<lambda>p (ps, ds).
        if startswith p ''plugins.'' then (Return (), (''engines'', [0]) # ps, ds)
        else (Return (), ps, (p, 0) # ds)),
     module_info = (\<lambda>v. Return ()),
     cmdloop = (\<lambda>c. Return ()),
     scan_website = (\<lambda>c. Return ()),
     format_exc = (\<lambda>e. ''Traceback (most recent call last):'')
   \<rparr>"

definition world0 :: "(nat, nat) world" where
  "world0 = \<lparr>trace = [], loaded_plugins = [], loaded_data_types = []\<rparr>"

text \<open>
  Variants: the operator interrupts the interactive shell; the scan meets the end of
  its input; a plugin unit fails to load.
\<close>

definition interrupted_host :: "(nat, nat) env" where
  "interrupted_host =
     demo_host\<lparr>cliparser_options := [(''interactive'', PyBool True)],
               cmdloop := (\<lambda>c. Raise KeyboardInterrupt)\<rparr>"

definition eof_host :: "(nat, nat) env" where
  "eof_host = demo_host\<lparr>scan_website := (\<lambda>c. Raise EOFError)\<rparr>"


text \<open>
  An installation with neither a \<^verbatim>\<open>plugins\<close> nor a \<^verbatim>\<open>data_types\<close> directory, and a
  state after discovery with two categories and two data types.
\<close>

definition bare_host :: "(nat, nat) env" where
  "bare_host = demo_host\<lparr>install_dir := [(''sstimap.py'', File)]\<rparr>"

definition world1 :: "(nat, nat) world" where
  "world1 = \<lparr>trace = [],
             loaded_plugins = [(''engines'', [1, 2, 3]), (''languages'', [4])],
             loaded_data_types = [(''form'', 5), (''json'', 6)]\<rparr>"


text \<open>A host that runs the script under Python 2.7.\<close>

definition python2_host :: "(nat, nat) env" where
  "python2_host = demo_host\<lparr>sys_version_info := (2, 7)\<rparr>"

section \<open>Reading a printed count back\<close>

text \<open>
  The number a decimal numeral denotes, used to say that the count a summary prints is
  the count meant.
\<close>

definition digit_value :: "char \<Rightarrow> nat" where
  "digit_value c = of_char c - 48"

definition parse_nat :: "string \<Rightarrow> nat" where
  "parse_nat s = foldl (\<lambda>a c. 10 * a + digit_value c) 0 s"

section \<open>The imports a pass is expected to issue\<close>

text \<open>
  The statement side of the loaders: the entries selected by name alone, and the
  imports they stand for, in the order of enumeration.
\<close>

definition selected :: "dir_entry list \<Rightarrow> dir_entry list" where
  "selected entries =
     filter (\<lambda>e. endswith (fst e) ''.py'' \<and> \<not> startswith (fst e) ''_'') entries"


fun children :: "node \<Rightarrow> dir_entry list" where
  "children (Dir entries) = entries"
| "children File = []"

definition plugin_imports :: "dir_entry list \<Rightarrow> event list" where
  "plugin_imports groups =
     concat (map (\<lambda>g. map (\<lambda>e. Import_module (''plugins.'' @ fst g @ ''.'' @ strip3 (fst e)))
                          (selected (children (snd g))))
                 (filter is_dir groups))"

text \<open>The shape the two import loops share; \<open>pre\<close> is the package prefix.\<close>

fun import_loop :: "('p, 'd) env \<Rightarrow> string \<Rightarrow> dir_entry list \<Rightarrow> (unit, 'p, 'd) py" where
  "import_loop env pre [] w = (Return (), w)"
| "import_loop env pre (e # rest) w =
     (if endswith (fst e) ''.py'' \<and> \<not> startswith (fst e) ''_'' then
        (case importlib_import_module env (pre @ strip3 (fst e)) w of
           (Raise x, w') \<Rightarrow> (Raise x, w')
         | (Return u, w') \<Rightarrow> import_loop env pre rest w')
      else import_loop env pre rest w)"

section \<open>Components in the trace\<close>

text \<open>
  The events by which a component shows in the trace: those of the four modes, and
  those of discovery (cache invalidation, imports and the two summaries).
\<close>

fun mode_event :: "event \<Rightarrow> bool" where
  "mode_event (Log level msg) = (level = 23 \<or> level = 22 \<and> msg = usage_hint)"
| "mode_event (Module_info v) = True"
| "mode_event (Cmdloop c) = True"
| "mode_event (Scan_website c) = True"
| "mode_event e = False"

fun discovery_event :: "event \<Rightarrow> bool" where
  "discovery_event Invalidate_caches = True"
| "discovery_event (Import_module p) = True"
| "discovery_event (Log level msg) = (level = 26)"
| "discovery_event e = False"

text \<open>\<open>grows P w w'\<close>: the trace of \<open>w'\<close> is that of \<open>w\<close> followed by events that satisfy \<open>P\<close>.\<close>

definition grows :: "(event \<Rightarrow> bool) \<Rightarrow> ('p, 'd) world \<Rightarrow> ('p, 'd) world \<Rightarrow> bool" where
  "grows P w w' = (\<exists>evs. trace w' = trace w @ evs \<and> list_all P evs)"

text \<open>Step 5 of \<^verbatim>\<open>main\<close>: both loaders, each followed by its summary.\<close>

definition discovery :: "('p, 'd) env \<Rightarrow> (unit, 'p, 'd) py" where
  "discovery env =
     bind (import_plugins env) (\<lambda>u.
     bind print_plugin_summary (\<lambda>u.
     bind (import_data_types env) (\<lambda>u.
     print_data_type_summary)))"

section \<open>Evaluation and shared lemmas\<close>

lemmas run_defs =
  script_def try_block_def main_def bind_def check_python_version_def
  display_welcome_banner_def import_plugins_def import_data_types_def scan_plugin_folder_def
  os_scandir_def invalidate_caches_def importlib_import_module_def emit_def py_print_def
  log_log_def log_critical_def log_debug_def print_plugin_summary_def
  print_data_type_summary_def route_def py_or_def dict_get_def dict_get_default_def
  dict_subscript_def launch_scan_def start_interactive_shell_def show_usage_hint_def
  handle_module_option_def checks_module_info_def endswith_def startswith_def strip3_def
  os_path_join_def str_int_def Let_def

text \<open>The route logic as one chain of tests on the five fields.\<close>

lemma route_cases:
  "route env cfg =
     (if \<not> truthy (dict_get cfg ''url'') \<and> \<not> truthy (dict_get cfg ''load_urls'')
          \<and> \<not> truthy (dict_get cfg ''load_forms'') \<and> \<not> truthy (dict_get cfg ''interactive'')
          \<and> \<not> truthy (dict_get cfg ''module'')
      then show_usage_hint
      else if truthy (dict_get cfg ''module'')
        then handle_module_option env (dict_get cfg ''module'')
      else if truthy (dict_get cfg ''interactive'') then start_interactive_shell env cfg
      else launch_scan env cfg)"
  by (rule ext)
    (auto simp: route_def py_or_def bind_def dict_subscript_def dict_get_def
      split: option.splits)

lemma demo_host_fields:
  "sys_version_info demo_host = (3, 12)"
  "sys_path0 demo_host = ''/opt/sstimap''"
  "module_info demo_host v = Return ()"
  "cmdloop demo_host c = Return ()"
  "scan_website demo_host c = Return ()"
  "config_args demo_host d = d"
  by (simp_all add: demo_host_def)

lemma emit_neq: "emit e w \<noteq> w"
proof
  assume "emit e w = w"
  then have "trace (emit e w) = trace w" by simp
  then show False by (simp add: emit_def)
qed

lemma snd_handle_module_option:
  "snd (handle_module_option env v w) =
     emit (Module_info (if v = PyStr ''list'' then PyStr '''' else v)) w"
  by (simp add: handle_module_option_def checks_module_info_def)

lemma digit_value_nth: "d < 10 \<Longrightarrow> digit_value (''0123456789'' ! d) = d"
proof -
  assume "d < 10"
  then have "d = 0 \<or> d = 1 \<or> d = 2 \<or> d = 3 \<or> d = 4 \<or> d = 5 \<or> d = 6 \<or> d = 7 \<or> d = 8 \<or> d = 9"
    by arith
  then show ?thesis
    by (auto simp: digit_value_def)
qed

lemma parse_nat_snoc: "parse_nat (s @ [c]) = 10 * parse_nat s + digit_value c"
  by (simp add: parse_nat_def)

lemma parse_nat_str_nat: "parse_nat (str_nat n) = n"
proof (induction n rule: str_nat.induct)
  case (1 n)
  show ?case
  proof (cases "n < 10")
    case True
    then show ?thesis
      by (simp add: str_nat.simps [of n] parse_nat_def digit_value_nth)
  next
    case False
    with "1" have "parse_nat (str_nat (n div 10)) = n div 10" by simp
    with False show ?thesis
      by (simp add: str_nat.simps [of n] parse_nat_snoc digit_value_nth)
  qed
qed

lemma summary_loop_map:
  "summary_loop items acc =
     acc @ map (\<lambda>(category, plugin_list). category @ '': '' @ str_nat (length plugin_list)) items"
  by (induction items acc rule: summary_loop.induct) simp_all

section \<open>The import loops\<close>

lemma trace_importlib_import_module:
  "trace (snd (importlib_import_module env p w)) = trace w @ [Import_module p]"
  by (simp add: importlib_import_module_def emit_def split: prod.splits)


lemma import_files_loop: "import_files env files w = import_loop env ''data_types.'' files w"
  by (induction files arbitrary: w) (auto simp: Let_def split: prod.splits result.splits)

lemma import_group_entries_loop:
  "import_group_entries env g entries w = import_loop env (''plugins.'' @ g @ ''.'') entries w"
  by (induction entries arbitrary: w) (auto simp: Let_def split: prod.splits result.splits)

lemma selected_Cons:
  "selected (e # rest) =
     (if endswith (fst e) ''.py'' \<and> \<not> startswith (fst e) ''_'' then e # selected rest
      else selected rest)"
  by (simp add: selected_def)

lemma import_loop_skip:
  "\<not> (endswith (fst e) ''.py'' \<and> \<not> startswith (fst e) ''_'') \<Longrightarrow>
     import_loop env pre (e # rest) w = import_loop env pre rest w"
  by auto

lemma import_loop_load:
  "endswith (fst e) ''.py'' \<and> \<not> startswith (fst e) ''_'' \<Longrightarrow>
     importlib_import_module env (pre @ strip3 (fst e)) w = (r, w') \<Longrightarrow>
     import_loop env pre (e # rest) w =
       (case r of Return u \<Rightarrow> import_loop env pre rest w' | Raise x \<Rightarrow> (Raise x, w'))"
  by (auto split: result.splits)

lemma import_loop_trace:
  "\<exists>n. trace (snd (import_loop env pre entries w))
         = trace w @ take n (map (\<lambda>e. Import_module (pre @ strip3 (fst e))) (selected entries))"
proof (induction entries arbitrary: w)
  case Nil
  show ?case by simp
next
  case (Cons e rest)
  let ?ev = "\<lambda>e::dir_entry. Import_module (pre @ strip3 (fst e))"
  show ?case
  proof (cases "endswith (fst e) ''.py'' \<and> \<not> startswith (fst e) ''_''")
    case False
    from Cons.IH [of w] show ?thesis
      by (simp only: import_loop_skip [OF False] selected_Cons False if_False)
  next
    case True
    obtain r w' where run: "importlib_import_module env (pre @ strip3 (fst e)) w = (r, w')"
      by (cases "importlib_import_module env (pre @ strip3 (fst e)) w")
    have tr: "trace w' = trace w @ [?ev e]"
      using trace_importlib_import_module [of env "pre @ strip3 (fst e)" w] run by simp
    have sel: "selected (e # rest) = e # selected rest"
      using True by (simp add: selected_Cons)
    show ?thesis
    proof (cases r)
      case (Raise x)
      have "trace (snd (import_loop env pre (e # rest) w))
              = trace w @ take 1 (map ?ev (selected (e # rest)))"
        unfolding sel by (simp add: import_loop_load [OF True run] Raise tr del: import_loop.simps)
      then show ?thesis by blast
    next
      case (Return u)
      from Cons.IH [of w'] obtain n where
        "trace (snd (import_loop env pre rest w')) = trace w' @ take n (map ?ev (selected rest))"
        by blast
      then have "trace (snd (import_loop env pre (e # rest) w))
              = trace w @ take (Suc n) (map ?ev (selected (e # rest)))"
        unfolding sel by (simp add: import_loop_load [OF True run] Return tr del: import_loop.simps)
      then show ?thesis by blast
    qed
  qed
qed

lemma import_loop_returned:
  "fst (import_loop env pre entries w) = Return () \<Longrightarrow>
     trace (snd (import_loop env pre entries w))
       = trace w @ map (\<lambda>e. Import_module (pre @ strip3 (fst e))) (selected entries)"
proof (induction entries arbitrary: w)
  case Nil
  show ?case by (simp add: selected_def)
next
  case (Cons e rest)
  show ?case
  proof (cases "endswith (fst e) ''.py'' \<and> \<not> startswith (fst e) ''_''")
    case False
    from Cons.prems have "fst (import_loop env pre rest w) = Return ()"
      by (simp only: import_loop_skip [OF False])
    from Cons.IH [OF this] show ?thesis
      by (simp only: import_loop_skip [OF False] selected_Cons False if_False)
  next
    case True
    obtain r w' where run: "importlib_import_module env (pre @ strip3 (fst e)) w = (r, w')"
      by (cases "importlib_import_module env (pre @ strip3 (fst e)) w")
    have tr: "trace w' = trace w @ [Import_module (pre @ strip3 (fst e))]"
      using trace_importlib_import_module [of env "pre @ strip3 (fst e)" w] run by simp
    have sel: "selected (e # rest) = e # selected rest"
      using True by (simp add: selected_Cons)
    from Cons.prems obtain u where r: "r = Return u"
      by (cases r) (simp_all add: import_loop_load [OF True run] del: import_loop.simps)
    with Cons.prems have "fst (import_loop env pre rest w') = Return ()"
      by (simp add: import_loop_load [OF True run] del: import_loop.simps)
    from Cons.IH [OF this] show ?thesis
      unfolding sel by (simp add: import_loop_load [OF True run] r tr del: import_loop.simps)
  qed
qed


text \<open>The outer loop of the plugin loader, over groups that are all directories.\<close>

lemma import_groups_step:
  "pre = ''plugins.'' @ g @ ''.'' \<Longrightarrow>
   import_groups env ((g, Dir entries) # rest) w =
     (case import_loop env pre entries w of
        (Raise x, w') \<Rightarrow> (Raise x, w')
      | (Return u, w') \<Rightarrow> import_groups env rest w')"
  by (simp add: os_scandir_def Let_def import_group_entries_loop)

lemma plugin_imports_Cons:
  "pre = ''plugins.'' @ g @ ''.'' \<Longrightarrow>
   plugin_imports ((g, Dir entries) # rest) =
     map (\<lambda>e. Import_module (pre @ strip3 (fst e))) (selected entries) @ plugin_imports rest"
  by (simp add: plugin_imports_def)

lemma take_shorter: "\<exists>m. take n xs = take m (xs @ ys)"
proof
  show "take n xs = take (min n (length xs)) (xs @ ys)" by (simp add: min_def)
qed

lemma import_groups_trace:
  "\<forall>g \<in> set groups. is_dir g \<Longrightarrow>
     \<exists>n. trace (snd (import_groups env groups w)) = trace w @ take n (plugin_imports groups)"
proof (induction groups arbitrary: w)
  case Nil
  show ?case by simp
next
  case (Cons grp rest)
  then obtain g entries where grp: "grp = (g, Dir entries)"
    by (cases grp; cases "snd grp") auto
  define pre where "pre = ''plugins.'' @ g @ ''.''"
  define L where "L = map (\<lambda>e. Import_module (pre @ strip3 (fst e))) (selected entries)"
  note step = import_groups_step [OF pre_def, of env entries rest]
  have pc: "plugin_imports (grp # rest) = L @ plugin_imports rest"
    unfolding grp L_def by (rule plugin_imports_Cons [OF pre_def])
  obtain r w' where run: "import_loop env pre entries w = (r, w')"
    by (cases "import_loop env pre entries w")
  show ?case
  proof (cases r)
    case (Raise x)
    from import_loop_trace [of env pre entries w] run
    obtain n where "trace w' = trace w @ take n L" unfolding L_def by auto
    moreover obtain m where "take n L = take m (L @ plugin_imports rest)"
      using take_shorter by blast
    ultimately have "trace w' = trace w @ take m (plugin_imports (grp # rest))"
      by (simp only: pc)
    moreover have "snd (import_groups env (grp # rest) w) = w'"
      unfolding grp by (simp only: step run Raise prod.case result.case snd_conv)
    ultimately show ?thesis by blast
  next
    case (Return u)
    from import_loop_returned [of env pre entries w] run Return
    have tr: "trace w' = trace w @ L" unfolding L_def by simp
    from Cons.prems have "\<forall>g \<in> set rest. is_dir g" by simp
    from Cons.IH [OF this, of w'] obtain n where
      "trace (snd (import_groups env rest w')) = trace w' @ take n (plugin_imports rest)"
      by blast
    moreover have "import_groups env (grp # rest) w = import_groups env rest w'"
      unfolding grp by (simp only: step run Return prod.case result.case)
    ultimately have "trace (snd (import_groups env (grp # rest) w))
        = trace w @ take (length L + n) (plugin_imports (grp # rest))"
      by (simp add: pc tr del: import_groups.simps)
    then show ?thesis by blast
  qed
qed




lemma import_data_types_Dir:
  "map_of (install_dir env) ''data_types'' = Some (Dir files) \<Longrightarrow>
     import_data_types env w = import_loop env ''data_types.'' files (emit Invalidate_caches w)"
  by (simp add: import_data_types_def bind_def invalidate_caches_def os_scandir_def Let_def
      import_files_loop)

lemma import_plugins_Dir:
  "map_of (install_dir env) ''plugins'' = Some (Dir groups) \<Longrightarrow>
     import_plugins env w = import_groups env (filter is_dir groups) (emit Invalidate_caches w)"
  by (simp add: import_plugins_def bind_def invalidate_caches_def scan_plugin_folder_def
      os_scandir_def Let_def)

section \<open>How the trace grows\<close>

lemma grows_refl: "grows P w w"
  by (simp add: grows_def)

lemma grows_trans: "grows P a b \<Longrightarrow> grows P b c \<Longrightarrow> grows P a c"
  by (auto simp: grows_def)

lemma grows_emit: "P e \<Longrightarrow> grows P w (emit e w)"
  by (simp add: grows_def emit_def)

lemma grows_mono: "(\<And>e. P e \<Longrightarrow> Q e) \<Longrightarrow> grows P w w' \<Longrightarrow> grows Q w w'"
  by (auto simp: grows_def list_all_iff)

lemma grows_bind:
  assumes "\<And>w. grows P w (snd (m w))" and "\<And>a w. grows P w (snd (f a w))"
  shows "grows P w (snd (bind m f w))"
proof (cases "m w")
  case (Pair r w')
  with assms(1) [of w] have g: "grows P w w'" by simp
  show ?thesis
  proof (cases r)
    case (Return a)
    with Pair g assms(2) [of w' a] show ?thesis
      by (auto simp: bind_def intro: grows_trans)
  next
    case (Raise x)
    with Pair g show ?thesis by (simp add: bind_def)
  qed
qed

lemma grows_check_python_version:
  "grows (\<lambda>e. \<not> mode_event e \<and> \<not> discovery_event e) w (snd (check_python_version env w))"
  by (simp add: check_python_version_def Let_def grows_emit grows_refl)

lemma grows_display_welcome_banner:
  "grows (\<lambda>e. \<not> mode_event e \<and> \<not> discovery_event e) w (snd (display_welcome_banner env c w))"
  by (simp add: display_welcome_banner_def Let_def py_print_def grows_def emit_def)

lemma grows_import_loop:
  "grows (\<lambda>e. \<not> mode_event e) w (snd (import_loop env pre entries w))"
proof -
  from import_loop_trace [of env pre entries w] obtain n where
    "trace (snd (import_loop env pre entries w))
       = trace w @ take n (map (\<lambda>e. Import_module (pre @ strip3 (fst e))) (selected entries))"
    by blast
  moreover have "list_all (\<lambda>e. \<not> mode_event e)
      (take n (map (\<lambda>e. Import_module (pre @ strip3 (fst e))) (selected entries)))"
    by (auto simp: list_all_iff dest!: in_set_takeD)
  ultimately show ?thesis
    unfolding grows_def by blast
qed

lemma plugin_imports_events: "e \<in> set (plugin_imports groups) \<Longrightarrow> \<not> mode_event e"
  by (auto simp: plugin_imports_def)

lemma grows_import_groups:
  assumes "\<forall>g \<in> set groups. is_dir g"
  shows "grows (\<lambda>e. \<not> mode_event e) w (snd (import_groups env groups w))"
proof -
  from import_groups_trace [OF assms, of env w] obtain n where
    "trace (snd (import_groups env groups w)) = trace w @ take n (plugin_imports groups)"
    by blast
  moreover have "list_all (\<lambda>e. \<not> mode_event e) (take n (plugin_imports groups))"
    by (auto simp: list_all_iff dest!: in_set_takeD plugin_imports_events)
  ultimately show ?thesis
    unfolding grows_def by blast
qed

lemma grows_import_plugins:
  "grows (\<lambda>e. \<not> mode_event e) w (snd (import_plugins env w))"
proof (cases "map_of (install_dir env) ''plugins''")
  case None
  then show ?thesis
    by (simp add: import_plugins_def bind_def invalidate_caches_def scan_plugin_folder_def
        Let_def grows_def emit_def)
next
  case (Some n)
  show ?thesis
  proof (cases n)
    case File
    with Some show ?thesis
      by (simp add: import_plugins_def bind_def invalidate_caches_def scan_plugin_folder_def
        os_scandir_def Let_def grows_def emit_def)
  next
    case (Dir groups)
    have "\<forall>g \<in> set (filter is_dir groups). is_dir g" by simp
    from grows_import_groups [OF this, of "emit Invalidate_caches w" env]
    have "grows (\<lambda>e. \<not> mode_event e) (emit Invalidate_caches w) (snd (import_plugins env w))"
      using Some Dir by (simp add: import_plugins_Dir)
    moreover have "grows (\<lambda>e. \<not> mode_event e) w (emit Invalidate_caches w)"
      by (simp add: grows_emit)
    ultimately show ?thesis by (rule grows_trans [rotated])
  qed
qed

lemma grows_import_data_types:
  "grows (\<lambda>e. \<not> mode_event e) w (snd (import_data_types env w))"
proof (cases "map_of (install_dir env) ''data_types''")
  case None
  then show ?thesis
    by (simp add: import_data_types_def bind_def invalidate_caches_def
        Let_def grows_def emit_def)
next
  case (Some n)
  show ?thesis
  proof (cases n)
    case File
    with Some show ?thesis
      by (simp add: import_data_types_def bind_def invalidate_caches_def
        os_scandir_def Let_def grows_def emit_def)
  next
    case (Dir files)
    from grows_import_loop [of "emit Invalidate_caches w" env "''data_types.''" files]
    have "grows (\<lambda>e. \<not> mode_event e) (emit Invalidate_caches w) (snd (import_data_types env w))"
      using Some Dir by (simp add: import_data_types_Dir)
    moreover have "grows (\<lambda>e. \<not> mode_event e) w (emit Invalidate_caches w)"
      by (simp add: grows_emit)
    ultimately show ?thesis by (rule grows_trans [rotated])
  qed
qed

lemma grows_print_plugin_summary:
  "grows (\<lambda>e. \<not> mode_event e) w (snd (print_plugin_summary w))"
  by (simp add: print_plugin_summary_def Let_def log_log_def grows_emit)

lemma grows_print_data_type_summary:
  "grows (\<lambda>e. \<not> mode_event e) w (snd (print_data_type_summary w))"
  by (simp add: print_data_type_summary_def Let_def log_log_def grows_emit)

lemma grows_discovery: "grows (\<lambda>e. \<not> mode_event e) w (snd (discovery env w))"
  unfolding discovery_def
  by (intro grows_bind grows_import_plugins grows_print_plugin_summary
      grows_import_data_types grows_print_data_type_summary)

lemma grows_route: "grows (\<lambda>e. \<not> discovery_event e) w (snd (route env cfg w))"
  by (simp add: route_cases show_usage_hint_def handle_module_option_def checks_module_info_def
      start_interactive_shell_def launch_scan_def bind_def log_log_def grows_def emit_def)

lemma farewell_not_usage_hint:
  "''User interruption. Exiting SSTImap...'' \<noteq> usage_hint"
  "''Received EOF. Exiting SSTImap...'' \<noteq> usage_hint"
  by (simp_all add: usage_hint_def)

lemma grows_script:
  "grows (\<lambda>e. \<not> mode_event e \<and> \<not> discovery_event e) (snd (try_block env w)) (snd (script env w))"
proof (cases "try_block env w")
  case (Pair r w')
  show ?thesis
  proof (cases r)
    case (Return u)
    with Pair show ?thesis by (simp add: script_def grows_refl)
  next
    case (Raise x)
    with Pair show ?thesis
      by (cases x)
        (simp_all add: script_def bind_def py_print_def log_log_def log_critical_def
          log_debug_def grows_def emit_def farewell_not_usage_hint)
  qed
qed

text \<open>\<open>main\<close> is its first four steps, then discovery, then the route logic.\<close>

lemma main_discovery:
  "main env w =
     (case discovery env
             (snd (display_welcome_banner env
                (dict_get_default
                   (dict_set (config_args env (cliparser_options env)) ''version'' (version env))
                   ''colour'' (PyBool True))
                (emit (Config_args (cliparser_options env)) w))) of
        (Return u, w5) \<Rightarrow>
          route env (dict_set (config_args env (cliparser_options env)) ''version'' (version env)) w5
      | (Raise x, w') \<Rightarrow> (Raise x, w'))"
  by (simp add: main_def discovery_def bind_def Let_def display_welcome_banner_def py_print_def
      split: prod.splits result.splits)

lemma grows_no_mode_event:
  "grows (\<lambda>e. \<not> mode_event e) w w' \<Longrightarrow>
     \<not> (\<exists>e \<in> set (drop (length (trace w)) (trace w')). mode_event e)"
  by (auto simp: grows_def list_all_iff)

lemma check_python_version_result:
  "fst (check_python_version env w) = Return ()
   \<or> fst (check_python_version env w) = Raise (SystemExit 1)"
  by (simp add: check_python_version_def Let_def)

lemma script_SystemExit:
  "try_block env w = (Raise (SystemExit n), w') \<Longrightarrow> script env w = (Raise (SystemExit n), w')"
  by (simp add: script_def)

lemma grows_main: "grows (\<lambda>e. True) w (snd (main env w))"
proof -
  let ?cfg = "dict_set (config_args env (cliparser_options env)) ''version'' (version env)"
  let ?w0 = "snd (display_welcome_banner env (dict_get_default ?cfg ''colour'' (PyBool True))
                (emit (Config_args (cliparser_options env)) w))"
  have a: "grows (\<lambda>e. True) w ?w0"
    by (rule grows_trans [OF grows_emit grows_mono [OF _ grows_display_welcome_banner]]) simp_all
  obtain r w' where d: "discovery env ?w0 = (r, w')"
    by (cases "discovery env ?w0")
  from grows_discovery [of ?w0 env] d have "grows (\<lambda>e. \<not> mode_event e) ?w0 w'"
    by simp
  then have b: "grows (\<lambda>e. True) ?w0 w'"
    by (rule grows_mono [rotated]) simp
  show ?thesis
  proof (cases r)
    case (Raise x)
    with d have "snd (main env w) = w'"
      by (simp add: main_discovery)
    with grows_trans [OF a b] show ?thesis by simp
  next
    case (Return u)
    have c: "grows (\<lambda>e. True) w' (snd (route env ?cfg w'))"
      by (rule grows_mono [OF _ grows_route]) simp
    from Return d have "snd (main env w) = snd (route env ?cfg w')"
      by (simp add: main_discovery)
    with grows_trans [OF grows_trans [OF a b] c] show ?thesis by simp
  qed
qed

section \<open>Mode selection\<close>

text \<open>
  C1. Which mode \<open>main\<close> enters is a function of the fields \<open>url\<close>, \<open>load_urls\<close>,
  \<open>load_forms\<close>, \<open>interactive\<close> and \<open>module\<close> of the configuration alone, for every
  configuration: the usage hint when all five are falsy; otherwise the module
  information when \<open>module\<close> is truthy, whatever the other fields hold; otherwise the
  interactive shell when \<open>interactive\<close> is truthy; otherwise the scan.
\<close>

theorem mode_selection_priority:
  "route env cfg =
     (if \<not> truthy (dict_get cfg ''url'') \<and> \<not> truthy (dict_get cfg ''load_urls'')
          \<and> \<not> truthy (dict_get cfg ''load_forms'') \<and> \<not> truthy (dict_get cfg ''interactive'')
          \<and> \<not> truthy (dict_get cfg ''module'')
      then show_usage_hint
      else if truthy (dict_get cfg ''module'')
        then handle_module_option env (dict_get cfg ''module'')
      else if truthy (dict_get cfg ''interactive'') then start_interactive_shell env cfg
      else launch_scan env cfg)"
  by (rule route_cases)

theorem mode_selection_priority_witness:
  "route demo_host [(''module'', PyStr ''list''), (''interactive'', PyBool True),
                    (''url'', PyStr ''http://x'')]
     = handle_module_option demo_host (PyStr ''list'')
   \<and> route demo_host [(''interactive'', PyBool True), (''url'', PyStr ''http://x'')]
     = start_interactive_shell demo_host
         [(''interactive'', PyBool True), (''url'', PyStr ''http://x'')]
   \<and> route demo_host [(''url'', PyStr ''http://x'')]
     = launch_scan demo_host [(''url'', PyStr ''http://x'')]
   \<and> route demo_host [(''url'', PyStr ''''), (''load_urls'', PyNone), (''load_forms'', PyNone),
                       (''interactive'', PyBool False), (''module'', PyNone)]
     = show_usage_hint"
  using mode_selection_priority [of demo_host "[(''module'', PyStr ''list''), (''interactive'', PyBool True),
                    (''url'', PyStr ''http://x'')]"]
    mode_selection_priority [of demo_host "[(''interactive'', PyBool True), (''url'', PyStr ''http://x'')]"]
    mode_selection_priority [of demo_host "[(''url'', PyStr ''http://x'')]"]
    mode_selection_priority [of demo_host "[(''url'', PyStr ''''), (''load_urls'', PyNone), (''load_forms'', PyNone),
                       (''interactive'', PyBool False), (''module'', PyNone)]"]
  by (simp add: dict_get_def)

section \<open>The runtime gate\<close>

text \<open>
  C2, as the claim states it, fails: Python 3.5 has the supported major version 3, and
  the gate still ends the process with status 1.
\<close>

theorem runtime_gate_major_only_counterexample:
  "\<not> (exit_status (fst (check_python_version (demo_host\<lparr>sys_version_info := (3, 5)\<rparr>) world0)) \<noteq> 0
        \<longleftrightarrow> fst (sys_version_info (demo_host\<lparr>sys_version_info := (3, 5)\<rparr>)) \<noteq> 3)"
  by (simp add: check_python_version_def demo_host_def Let_def)

text \<open>
  C2, amended. The gate ends the process with a non-zero status (1) if and only if the
  major version is not 3 or the minor version is below 6. With major version 3 and a
  minor version above 13 it prints one cautionary message and returns; with major
  version 3 and a minor version from 6 to 13 it returns without output.
\<close>

theorem runtime_gate:
  "(exit_status (fst (check_python_version env w)) \<noteq> 0
      \<longleftrightarrow> fst (sys_version_info env) \<noteq> 3 \<or> snd (sys_version_info env) < 6)
   \<and> (fst (check_python_version env w) = Raise (SystemExit 1)
      \<longleftrightarrow> fst (sys_version_info env) \<noteq> 3 \<or> snd (sys_version_info env) < 6)
   \<and> (fst (check_python_version env w) = Return ()
      \<longleftrightarrow> fst (sys_version_info env) = 3 \<and> 6 \<le> snd (sys_version_info env))
   \<and> (fst (sys_version_info env) = 3 \<and> 13 < snd (sys_version_info env)
      \<longrightarrow> (\<exists>msg. check_python_version env w = (Return (), emit (Print msg) w)))
   \<and> (fst (sys_version_info env) = 3 \<and> 6 \<le> snd (sys_version_info env)
        \<and> snd (sys_version_info env) \<le> 13
      \<longrightarrow> check_python_version env w = (Return (), w))"
  by (auto simp: check_python_version_def Let_def)

theorem runtime_gate_witness:
  "fst (sys_version_info (demo_host\<lparr>sys_version_info := (3, 14)\<rparr>)) = 3
   \<and> 13 < snd (sys_version_info (demo_host\<lparr>sys_version_info := (3, 14)\<rparr>))
   \<and> (\<exists>msg. check_python_version (demo_host\<lparr>sys_version_info := (3, 14)\<rparr>) world0
          = (Return (), emit (Print msg) world0))
   \<and> fst (check_python_version (demo_host\<lparr>sys_version_info := (3, 5)\<rparr>) world0)
       = Raise (SystemExit 1)
   \<and> fst (check_python_version (demo_host\<lparr>sys_version_info := (2, 7)\<rparr>) world0)
       = Raise (SystemExit 1)
   \<and> check_python_version demo_host world0 = (Return (), world0)"
  using runtime_gate [of "demo_host\<lparr>sys_version_info := (3, 14)\<rparr>" world0]
    runtime_gate [of "demo_host\<lparr>sys_version_info := (3, 5)\<rparr>" world0]
    runtime_gate [of "demo_host\<lparr>sys_version_info := (2, 7)\<rparr>" world0]
    runtime_gate [of demo_host world0]
  by (simp add: demo_host_def)

section \<open>The module-information mode\<close>

text \<open>
  C5. When the \<open>module\<close> field is truthy, \<open>main\<close> enters the module-information mode
  with the value of the field: the value \<open>list\<close> calls the reporter with the empty
  selector (all modules), and every other value is handed to the reporter unchanged.
\<close>

theorem module_info_selector:
  "truthy (dict_get cfg ''module'') \<Longrightarrow>
     route env cfg = handle_module_option env (dict_get cfg ''module'')
     \<and> handle_module_option env (PyStr ''list'') w
          = (module_info env (PyStr ''''), emit (Module_info (PyStr '''')) w)
     \<and> (dict_get cfg ''module'' \<noteq> PyStr ''list'' \<longrightarrow>
          route env cfg w
            = (module_info env (dict_get cfg ''module''),
               emit (Module_info (dict_get cfg ''module'')) w))"
  by (simp add: route_cases handle_module_option_def checks_module_info_def)

theorem module_info_selector_witness:
  "truthy (dict_get [(''module'', PyStr ''jinja2''), (''url'', PyStr ''http://x'')] ''module'')
   \<and> dict_get [(''module'', PyStr ''jinja2''), (''url'', PyStr ''http://x'')] ''module''
        \<noteq> PyStr ''list''
   \<and> route demo_host [(''module'', PyStr ''jinja2''), (''url'', PyStr ''http://x'')] world0
       = (Return (), emit (Module_info (PyStr ''jinja2'')) world0)
   \<and> route demo_host [(''module'', PyStr ''list'')] world0
       = (Return (), emit (Module_info (PyStr '''')) world0)"
proof -
  have h1: "truthy (dict_get [(''module'', PyStr ''jinja2''), (''url'', PyStr ''http://x'')] ''module'')"
    by (simp add: dict_get_def)
  have h2: "truthy (dict_get [(''module'', PyStr ''list'')] ''module'')"
    by (simp add: dict_get_def)
  show ?thesis
    using h1 module_info_selector [OF h1, of demo_host world0]
      module_info_selector [OF h2, of demo_host world0]
    by (simp add: dict_get_def demo_host_fields handle_module_option_def
        checks_module_info_def)
qed

section \<open>No lookup of a missing key\<close>

text \<open>
  C9. For every configuration, whatever keys it has, the route logic ends in one of the
  four modes and never in the \<open>KeyError\<close> of a missing key: a key that is absent reads
  as \<open>None\<close>, which is falsy, and the one subscript read, of \<open>module\<close>, is reached only
  when \<open>module\<close> was found truthy, where it returns the value.
\<close>

theorem dispatch_never_misses_a_key:
  "(map_of cfg k = None \<longrightarrow> dict_get cfg k = PyNone \<and> \<not> truthy (dict_get cfg k))
   \<and> (truthy (dict_get cfg ''module'') \<longrightarrow>
        dict_subscript cfg ''module'' w = (Return (dict_get cfg ''module''), w))
   \<and> (route env cfg w = show_usage_hint w
        \<or> truthy (dict_get cfg ''module'')
            \<and> route env cfg w = handle_module_option env (dict_get cfg ''module'') w
        \<or> route env cfg w = start_interactive_shell env cfg w
        \<or> route env cfg w = launch_scan env cfg w)
   \<and> route env cfg w \<noteq> (Raise (KeyError ''module''), w)"
proof -
  have a: "map_of cfg k = None \<longrightarrow> dict_get cfg k = PyNone \<and> \<not> truthy (dict_get cfg k)"
    by (simp add: dict_get_def)
  have b: "truthy (dict_get cfg ''module'') \<longrightarrow>
        dict_subscript cfg ''module'' w = (Return (dict_get cfg ''module''), w)"
    by (auto simp: dict_get_def dict_subscript_def split: option.splits)
  have c: "route env cfg w = show_usage_hint w
        \<or> truthy (dict_get cfg ''module'')
            \<and> route env cfg w = handle_module_option env (dict_get cfg ''module'') w
        \<or> route env cfg w = start_interactive_shell env cfg w
        \<or> route env cfg w = launch_scan env cfg w"
    by (simp add: route_cases)
  have d1: "snd (show_usage_hint w) \<noteq> w"
    by (simp add: show_usage_hint_def log_log_def emit_neq)
  have d2: "snd (handle_module_option env v w) \<noteq> w" for v
    by (simp add: snd_handle_module_option emit_neq)
  have d3: "snd (start_interactive_shell env cfg w) \<noteq> w"
  proof
    assume "snd (start_interactive_shell env cfg w) = w"
    then have "length (trace (snd (start_interactive_shell env cfg w))) = length (trace w)"
      by simp
    then show False
      by (simp add: start_interactive_shell_def bind_def log_log_def emit_def)
  qed
  have d4: "snd (launch_scan env cfg w) \<noteq> w"
  proof
    assume "snd (launch_scan env cfg w) = w"
    then have "length (trace (snd (launch_scan env cfg w))) = length (trace w)"
      by simp
    then show False
      by (simp add: launch_scan_def bind_def log_log_def emit_def)
  qed
  have d: "route env cfg w \<noteq> (Raise (KeyError ''module''), w)"
  proof
    assume r: "route env cfg w = (Raise (KeyError ''module''), w)"
    then have "snd (route env cfg w) = w" by simp
    with c d1 d2 d3 d4 show False by metis
  qed
  from a b c d show ?thesis by blast
qed

theorem dispatch_never_misses_a_key_witness:
  "map_of [(''url'', PyStr ''http://x'')] ''module'' = None
   \<and> \<not> truthy (dict_get [(''url'', PyStr ''http://x'')] ''module'')
   \<and> route demo_host [(''url'', PyStr ''http://x'')] world0
        = launch_scan demo_host [(''url'', PyStr ''http://x'')] world0
   \<and> route demo_host [] world0 = show_usage_hint world0
   \<and> truthy (dict_get [(''module'', PyStr ''list'')] ''module'')
   \<and> dict_subscript [(''module'', PyStr ''list'')] ''module'' world0
        = (Return (PyStr ''list''), world0)"
  using dispatch_never_misses_a_key [of "[(''url'', PyStr ''http://x'')]" "''module''" world0 demo_host]
    dispatch_never_misses_a_key [of "[]" "''module''" world0 demo_host]
    dispatch_never_misses_a_key [of "[(''module'', PyStr ''list'')]" "''url''" world0 demo_host]
  by (simp add: route_cases dict_get_def)

section \<open>The handlers of the script\<close>

text \<open>
  C10. When the body of the script ends with a keyboard interrupt or an end of input,
  the handler prints an empty line, logs one farewell message at level 22 and returns:
  nothing is raised again, and the exit status is 0.
\<close>

theorem interruption_exits_normally:
  "try_block env w = (Raise e, w') \<and> (e = KeyboardInterrupt \<or> e = EOFError) \<Longrightarrow>
     script env w =
       (Return (),
        w'\<lparr>trace := trace w' @
           [Print [],
            Log 22 (if e = KeyboardInterrupt then ''User interruption. Exiting SSTImap...''
                    else ''Received EOF. Exiting SSTImap...'')]\<rparr>)
     \<and> exit_status (fst (script env w)) = 0"
  by (auto simp: script_def bind_def py_print_def log_log_def emit_def)

theorem interruption_exits_normally_witness:
  "fst (try_block interrupted_host world0) = Raise KeyboardInterrupt
   \<and> fst (try_block eof_host world0) = Raise EOFError
   \<and> fst (script interrupted_host world0) = Return ()
   \<and> exit_status (fst (script interrupted_host world0)) = 0
   \<and> exit_status (fst (script eof_host world0)) = 0
   \<and> trace (snd (script interrupted_host world0))
       = trace (snd (try_block interrupted_host world0))
         @ [Print [], Log 22 ''User interruption. Exiting SSTImap...'']
   \<and> trace (snd (script eof_host world0))
       = trace (snd (try_block eof_host world0))
         @ [Print [], Log 22 ''Received EOF. Exiting SSTImap...'']"
proof -
  have f1: "fst (try_block interrupted_host world0) = Raise KeyboardInterrupt"
    by (simp add: interrupted_host_def demo_host_def world0_def run_defs)
  have f2: "fst (try_block eof_host world0) = Raise EOFError"
    by (simp add: eof_host_def demo_host_def world0_def run_defs)
  have h1: "try_block interrupted_host world0
              = (Raise KeyboardInterrupt, snd (try_block interrupted_host world0))
            \<and> (KeyboardInterrupt = KeyboardInterrupt \<or> KeyboardInterrupt = EOFError)"
    using f1 by (cases "try_block interrupted_host world0") simp
  have h2: "try_block eof_host world0 = (Raise EOFError, snd (try_block eof_host world0))
            \<and> (EOFError = KeyboardInterrupt \<or> EOFError = EOFError)"
    using f2 by (cases "try_block eof_host world0") simp
  show ?thesis
    using f1 f2 interruption_exits_normally [OF h1] interruption_exits_normally [OF h2]
    by simp
qed



section \<open>The summaries\<close>

text \<open>
  C7. For every state of the registries, the plugin summary is one log record at level
  26 that lists, for each category of the plugin registry in order, the category and the
  decimal numeral of the length of its list, and the data-type summary is one record with
  the numeral of the size of the data-type registry; each numeral read back is that
  length. Both reports leave both registries as they were.
\<close>

theorem summaries_exact_and_read_only:
  "print_plugin_summary w =
     (Return (),
      w\<lparr>trace := trace w @
         [Log 26 (''Loaded plugins by categories: ''
            @ join ''; '' (map (\<lambda>(category, plugin_list).
                 category @ '': '' @ str_nat (length plugin_list)) (loaded_plugins w)))]\<rparr>)
   \<and> map (\<lambda>(category, plugin_list). parse_nat (str_nat (length plugin_list))) (loaded_plugins w)
       = map (\<lambda>(category, plugin_list). length plugin_list) (loaded_plugins w)
   \<and> print_data_type_summary w =
     (Return (),
      w\<lparr>trace := trace w @
         [Log 26 (''Loaded request body types: ''
            @ str_nat (length (loaded_data_types w)) @ [CHR 0x0A])]\<rparr>)
   \<and> parse_nat (str_nat (length (loaded_data_types w))) = length (loaded_data_types w)
   \<and> loaded_plugins (snd (print_plugin_summary w)) = loaded_plugins w
   \<and> loaded_data_types (snd (print_plugin_summary w)) = loaded_data_types w
   \<and> loaded_plugins (snd (print_data_type_summary w)) = loaded_plugins w
   \<and> loaded_data_types (snd (print_data_type_summary w)) = loaded_data_types w"
  by (simp add: print_plugin_summary_def print_data_type_summary_def log_log_def emit_def
      summary_loop_map parse_nat_str_nat)

theorem summaries_exact_and_read_only_witness:
  "print_plugin_summary world1 =
     (Return (),
      world1\<lparr>trace := [Log 26 ''Loaded plugins by categories: engines: 3; languages: 1'']\<rparr>)
   \<and> print_data_type_summary world1 =
     (Return (),
      world1\<lparr>trace := [Log 26 (''Loaded request body types: 2'' @ [CHR 0x0A])]\<rparr>)"
proof -
  have s: "str_nat (Suc (Suc (Suc 0))) = ''3''" "str_nat (Suc 0) = ''1''"
    "str_nat (Suc (Suc 0)) = ''2''"
    by (simp_all add: str_nat.simps)
  have w: "trace world1 = []"
    "loaded_plugins world1 = [(''engines'', [1, 2, 3]), (''languages'', [4])]"
    "loaded_data_types world1 = [(''form'', 5), (''json'', 6)]"
    by (simp_all add: world1_def)
  show ?thesis
    using summaries_exact_and_read_only [of world1] by (simp add: w s)
qed

section \<open>Missing roots\<close>

text \<open>
  C4. When \<^verbatim>\<open>plugins\<close> does not exist under the installation directory,
  \<open>import_plugins\<close> prints one warning, imports nothing, leaves both registries as they
  were and returns normally; when \<^verbatim>\<open>data_types\<close> does not exist, \<open>import_data_types\<close>
  does the same.
\<close>

theorem missing_root_is_not_fatal:
  "(map_of (install_dir env) ''plugins'' = None \<longrightarrow>
      import_plugins env w =
        (Return (),
         w\<lparr>trace := trace w @
            [Invalidate_caches,
             Print (''[!] Plugin directory not found: '' @ sys_path0 env @ ''/plugins'')]\<rparr>))
   \<and> (map_of (install_dir env) ''data_types'' = None \<longrightarrow>
      import_data_types env w =
        (Return (),
         w\<lparr>trace := trace w @
            [Invalidate_caches, Print ''[!] data_types directory missing!'']\<rparr>))"
  by (simp add: import_plugins_def import_data_types_def scan_plugin_folder_def
      invalidate_caches_def bind_def emit_def Let_def)

theorem missing_root_is_not_fatal_witness:
  "map_of (install_dir bare_host) ''plugins'' = None
   \<and> map_of (install_dir bare_host) ''data_types'' = None
   \<and> import_plugins bare_host world0 =
        (Return (),
         world0\<lparr>trace :=
            [Invalidate_caches,
             Print ''[!] Plugin directory not found: /opt/sstimap/plugins'']\<rparr>)
   \<and> import_data_types bare_host world0 =
        (Return (),
         world0\<lparr>trace := [Invalidate_caches, Print ''[!] data_types directory missing!'']\<rparr>)
   \<and> loaded_plugins (snd (import_plugins bare_host world0)) = []
   \<and> loaded_data_types (snd (import_data_types bare_host world0)) = []"
proof -
  have h: "install_dir bare_host = [(''sstimap.py'', File)]"
    "sys_path0 bare_host = ''/opt/sstimap''"
    by (simp_all add: bare_host_def demo_host_def)
  have w: "trace world0 = []" "loaded_plugins world0 = []" "loaded_data_types world0 = []"
    by (simp_all add: world0_def)
  show ?thesis
    using missing_root_is_not_fatal [of bare_host world0] by (simp add: h w)
qed

section \<open>Which entries the loaders import\<close>




section \<open>The order of the components\<close>

text \<open>
  C6. In every run the components act in one order. The gate is first: what it prints
  opens the trace of the run, a gate that does not return ends the script with the
  gate's own result, and with a major version other than 3 the run is one printed
  message and exit status 1, with no event of the assembler, the loaders or the
  dispatcher. Discovery is complete before a mode is selected: whenever an event of a
  mode occurs in a run, the gate has returned, both loaders and both summaries have
  run from a state \<open>w0\<close> to a state \<open>w5\<close> and returned normally, no event of a mode
  occurs up to \<open>w5\<close>, the route logic starts in \<open>w5\<close>, and no event of discovery occurs
  after \<open>w5\<close>.
\<close>

theorem fixed_order:
  "(fst (sys_version_info env) \<noteq> 3 \<longrightarrow>
      (\<exists>msg. script env w = (Raise (SystemExit 1), emit (Print msg) w)))
   \<and> (fst (check_python_version env w) \<noteq> Return () \<longrightarrow>
        script env w = check_python_version env w)
   \<and> grows (\<lambda>e. True) (snd (check_python_version env w)) (snd (script env w))
   \<and> ((\<exists>e \<in> set (drop (length (trace w)) (trace (snd (script env w)))). mode_event e) \<longrightarrow>
        (\<exists>w0 w5 cfg.
            fst (check_python_version env w) = Return ()
          \<and> grows (\<lambda>e. \<not> mode_event e \<and> \<not> discovery_event e) w w0
          \<and> discovery env w0 = (Return (), w5)
          \<and> grows (\<lambda>e. \<not> mode_event e) w0 w5
          \<and> try_block env w = route env cfg w5
          \<and> grows (\<lambda>e. \<not> discovery_event e) w5 (snd (script env w))))"
proof -
  obtain g w1 where gate: "check_python_version env w = (g, w1)"
    by (cases "check_python_version env w")
  from grows_check_python_version [of w env] gate
  have gw1: "grows (\<lambda>e. \<not> mode_event e \<and> \<not> discovery_event e) w w1" by simp
  note hs = grows_script [of env w]
  have c1: "fst (sys_version_info env) \<noteq> 3 \<longrightarrow>
      (\<exists>msg. script env w = (Raise (SystemExit 1), emit (Print msg) w))"
    by (auto simp: script_def try_block_def bind_def check_python_version_def Let_def)
  have c2: "fst (check_python_version env w) \<noteq> Return () \<longrightarrow>
        script env w = check_python_version env w"
  proof
    assume "fst (check_python_version env w) \<noteq> Return ()"
    with check_python_version_result [of env w] gate have "g = Raise (SystemExit 1)"
      by simp
    with gate have "try_block env w = (Raise (SystemExit 1), w1)"
      by (simp add: try_block_def bind_def)
    from script_SystemExit [OF this] gate \<open>g = Raise (SystemExit 1)\<close>
    show "script env w = check_python_version env w" by simp
  qed
  have c3: "grows (\<lambda>e. True) (snd (check_python_version env w)) (snd (script env w))"
  proof -
    have "grows (\<lambda>e. True) w1 (snd (try_block env w))"
    proof (cases g)
      case (Raise x)
      with gate show ?thesis by (simp add: try_block_def bind_def grows_refl)
    next
      case (Return u)
      with gate grows_main [of w1 env] show ?thesis by (simp add: try_block_def bind_def)
    qed
    moreover from hs have "grows (\<lambda>e. True) (snd (try_block env w)) (snd (script env w))"
      by (rule grows_mono [rotated]) simp
    ultimately have "grows (\<lambda>e. True) w1 (snd (script env w))"
      by (rule grows_trans)
    with gate show ?thesis by simp
  qed
  have c4: "(\<exists>e \<in> set (drop (length (trace w)) (trace (snd (script env w)))). mode_event e) \<longrightarrow>
        (\<exists>w0 w5 cfg.
            fst (check_python_version env w) = Return ()
          \<and> grows (\<lambda>e. \<not> mode_event e \<and> \<not> discovery_event e) w w0
          \<and> discovery env w0 = (Return (), w5)
          \<and> grows (\<lambda>e. \<not> mode_event e) w0 w5
          \<and> try_block env w = route env cfg w5
          \<and> grows (\<lambda>e. \<not> discovery_event e) w5 (snd (script env w)))"
  proof
    assume ev: "\<exists>e \<in> set (drop (length (trace w)) (trace (snd (script env w)))). mode_event e"
    have hs_mode: "grows (\<lambda>e. \<not> mode_event e) (snd (try_block env w)) (snd (script env w))"
      using hs by (rule grows_mono [rotated]) simp
    have hs_disc: "grows (\<lambda>e. \<not> discovery_event e) (snd (try_block env w)) (snd (script env w))"
      using hs by (rule grows_mono [rotated]) simp
    have gw1_mode: "grows (\<lambda>e. \<not> mode_event e) w w1"
      using gw1 by (rule grows_mono [rotated]) simp
    show "\<exists>w0 w5 cfg.
            fst (check_python_version env w) = Return ()
          \<and> grows (\<lambda>e. \<not> mode_event e \<and> \<not> discovery_event e) w w0
          \<and> discovery env w0 = (Return (), w5)
          \<and> grows (\<lambda>e. \<not> mode_event e) w0 w5
          \<and> try_block env w = route env cfg w5
          \<and> grows (\<lambda>e. \<not> discovery_event e) w5 (snd (script env w))"
    proof (cases g)
      case (Raise x)
      with gate have "snd (try_block env w) = w1"
        by (simp add: try_block_def bind_def)
      with hs_mode have "grows (\<lambda>e. \<not> mode_event e) w1 (snd (script env w))"
        by simp
      with gw1_mode have "grows (\<lambda>e. \<not> mode_event e) w (snd (script env w))"
        by (rule grows_trans)
      from grows_no_mode_event [OF this] ev show ?thesis by simp
    next
      case (Return u)
      let ?cfg = "dict_set (config_args env (cliparser_options env)) ''version'' (version env)"
      let ?w0 = "snd (display_welcome_banner env (dict_get_default ?cfg ''colour'' (PyBool True))
                (emit (Config_args (cliparser_options env)) w1))"
      have tb: "try_block env w = main env w1"
        using gate Return by (simp add: try_block_def bind_def)
      have "grows (\<lambda>e. \<not> mode_event e \<and> \<not> discovery_event e) w1 ?w0"
        by (rule grows_trans [OF grows_emit grows_display_welcome_banner]) simp
      with gw1 have a: "grows (\<lambda>e. \<not> mode_event e \<and> \<not> discovery_event e) w ?w0"
        by (rule grows_trans)
      then have a_mode: "grows (\<lambda>e. \<not> mode_event e) w ?w0"
        by (rule grows_mono [rotated]) simp
      obtain r w5 where d: "discovery env ?w0 = (r, w5)"
        by (cases "discovery env ?w0")
      from grows_discovery [of ?w0 env] d have b: "grows (\<lambda>e. \<not> mode_event e) ?w0 w5"
        by simp
      show ?thesis
      proof (cases r)
        case (Raise x)
        with d tb have "snd (try_block env w) = w5"
          by (simp add: main_discovery)
        with hs_mode have "grows (\<lambda>e. \<not> mode_event e) w5 (snd (script env w))"
          by simp
        with grows_trans [OF a_mode b]
        have "grows (\<lambda>e. \<not> mode_event e) w (snd (script env w))"
          by (rule grows_trans)
        from grows_no_mode_event [OF this] ev show ?thesis by simp
      next
        case (Return u')
        with d have d': "discovery env ?w0 = (Return (), w5)" by simp
        with tb have r: "try_block env w = route env ?cfg w5"
          by (simp add: main_discovery)
        from grows_route [of w5 env ?cfg] r
        have "grows (\<lambda>e. \<not> discovery_event e) w5 (snd (try_block env w))"
          by simp
        then have c: "grows (\<lambda>e. \<not> discovery_event e) w5 (snd (script env w))"
          using hs_disc by (rule grows_trans)
        have g: "fst (check_python_version env w) = Return ()"
          using gate \<open>g = Return u\<close> by simp
        from g a d' b r c show ?thesis by blast
      qed
    qed
  qed
  from c1 c2 c3 c4 show ?thesis by blast
qed

theorem fixed_order_witness:
  "(\<exists>e \<in> set (drop (length (trace world0)) (trace (snd (script demo_host world0)))).
       mode_event e)
   \<and> (\<exists>w0 w5 cfg.
          fst (check_python_version demo_host world0) = Return ()
        \<and> grows (\<lambda>e. \<not> mode_event e \<and> \<not> discovery_event e) world0 w0
        \<and> discovery demo_host w0 = (Return (), w5)
        \<and> grows (\<lambda>e. \<not> mode_event e) w0 w5
        \<and> try_block demo_host world0 = route demo_host cfg w5
        \<and> grows (\<lambda>e. \<not> discovery_event e) w5 (snd (script demo_host world0)))
   \<and> fst (sys_version_info python2_host) \<noteq> 3
   \<and> (\<exists>msg. script python2_host world0 = (Raise (SystemExit 1), emit (Print msg) world0))"
proof -
  have h1: "\<exists>e \<in> set (drop (length (trace world0)) (trace (snd (script demo_host world0)))).
       mode_event e"
    by (simp add: demo_host_def world0_def run_defs)
  have h2: "fst (sys_version_info python2_host) \<noteq> 3"
    by (simp add: python2_host_def)
  show ?thesis
    using h1 h2 fixed_order [of demo_host world0] fixed_order [of python2_host world0]
    by blast
qed

end
